theory Spec2Isabelle
  imports Complex_Main "HOL-Library.Sublist"
begin

section \<open>Strings\<close>

text \<open>
  Python \<open>str\<close> values are modelled as \<open>string\<close>; the operations below are the
  ones the policy engine, the triage engine and the orchestrator use.  A \<open>char\<close> is a
  code point below 256; \<open>str.lower\<close> and \<open>str.strip\<close> are modelled on these code
  points: the upper-case letters are \<open>A\<close> to \<open>Z\<close>, 0xC0 to 0xD6 and 0xD8 to 0xDE (each
  32 below its lower-case letter), and the whitespace characters are 0x09 to 0x0D, 0x1C to
  0x1F, 0x20, 0x85 and 0xA0.
\<close>

definition startswith :: "string \<Rightarrow> string \<Rightarrow> bool" where
  "startswith s p = (take (length p) s = p)"

definition endswith :: "string \<Rightarrow> string \<Rightarrow> bool" where
  "endswith s x = (length x \<le> length s \<and> drop (length s - length x) s = x)"

definition lower_char :: "char \<Rightarrow> char" where
  "lower_char c =
     (case map_of
        (zip (''ABCDEFGHIJKLMNOPQRSTUVWXYZ''
              @ [CHR 0xC0, CHR 0xC1, CHR 0xC2, CHR 0xC3, CHR 0xC4, CHR 0xC5, CHR 0xC6, CHR 0xC7,
                 CHR 0xC8, CHR 0xC9, CHR 0xCA, CHR 0xCB, CHR 0xCC, CHR 0xCD, CHR 0xCE, CHR 0xCF,
                 CHR 0xD0, CHR 0xD1, CHR 0xD2, CHR 0xD3, CHR 0xD4, CHR 0xD5, CHR 0xD6,
                 CHR 0xD8, CHR 0xD9, CHR 0xDA, CHR 0xDB, CHR 0xDC, CHR 0xDD, CHR 0xDE])
             (''abcdefghijklmnopqrstuvwxyz''
              @ [CHR 0xE0, CHR 0xE1, CHR 0xE2, CHR 0xE3, CHR 0xE4, CHR 0xE5, CHR 0xE6, CHR 0xE7,
                 CHR 0xE8, CHR 0xE9, CHR 0xEA, CHR 0xEB, CHR 0xEC, CHR 0xED, CHR 0xEE, CHR 0xEF,
                 CHR 0xF0, CHR 0xF1, CHR 0xF2, CHR 0xF3, CHR 0xF4, CHR 0xF5, CHR 0xF6,
                 CHR 0xF8, CHR 0xF9, CHR 0xFA, CHR 0xFB, CHR 0xFC, CHR 0xFD, CHR 0xFE])) c of
        Some l \<Rightarrow> l
      | None \<Rightarrow> c)"

definition lower :: "string \<Rightarrow> string" where
  "lower s = map lower_char s"

definition is_space :: "char \<Rightarrow> bool" where
  "is_space c = ((of_char c :: nat) \<in> {9, 10, 11, 12, 13, 28, 29, 30, 31, 32, 133, 160})"

definition strip :: "string \<Rightarrow> string" where
  "strip s = rev (dropWhile is_space (rev (dropWhile is_space s)))"

fun replace_char :: "char \<Rightarrow> char \<Rightarrow> string \<Rightarrow> string" where
  "replace_char a b [] = []"
| "replace_char a b (c # cs) = (if c = a then b else c) # replace_char a b cs"

fun join :: "string \<Rightarrow> string list \<Rightarrow> string" where
  "join sep [] = []"
| "join sep [x] = x"
| "join sep (x # y # ys) = x @ sep @ join sep (y # ys)"

definition digit :: "nat \<Rightarrow> char" where
  "digit n = ''0123456789'' ! (n mod 10)"

fun show_nat :: "nat \<Rightarrow> string" where
  "show_nat n = (if n < 10 then [digit n] else show_nat (n div 10) @ [digit n])"

declare show_nat.simps [simp del]

definition show_int :: "int \<Rightarrow> string" where
  "show_int i = (if i < 0 then CHR ''-'' # show_nat (nat (- i)) else show_nat (nat i))"

definition sq :: string where
  "sq = [CHR 0x27]"

section \<open>Parsed JSON values\<close>

text \<open>
  What \<open>json.loads\<close> returns.  An object keeps its items in insertion order with
  distinct keys, as a Python \<open>dict\<close> does.  Floats are modelled by reals.
\<close>

datatype json =
    JNull
  | JBool bool
  | JInt int
  | JFloat real
  | JStr string
  | JArr "json list"
  | JObj "(string \<times> json) list"

fun type_name :: "json \<Rightarrow> string" where
  "type_name JNull = ''NoneType''"
| "type_name (JBool b) = ''bool''"
| "type_name (JInt i) = ''int''"
| "type_name (JFloat r) = ''float''"
| "type_name (JStr s) = ''str''"
| "type_name (JArr xs) = ''list''"
| "type_name (JObj d) = ''dict''"

text \<open>\<open>d.get(k, dflt)\<close> on a dict of parsed values, and on a dict with a typed entry.\<close>

definition get_or :: "(string \<times> json) list \<Rightarrow> string \<Rightarrow> json \<Rightarrow> json" where
  "get_or d k dflt = (case map_of d k of None \<Rightarrow> dflt | Some v \<Rightarrow> v)"

definition opt_or :: "'a option \<Rightarrow> 'a \<Rightarrow> 'a" where
  "opt_or x dflt = (case x of None \<Rightarrow> dflt | Some v \<Rightarrow> v)"

text \<open>
  \<open>sep.join(v)\<close> for a parsed value \<open>v\<close>: a list of strings is joined, a string is
  iterated character by character, a dict by its keys; anything else raises
  \<open>TypeError\<close> (\<open>Inl\<close> carries the exception's message).
\<close>

fun items_str :: "nat \<Rightarrow> json list \<Rightarrow> string + string list" where
  "items_str i [] = Inr []"
| "items_str i (JStr s # xs) =
     (case items_str (Suc i) xs of Inl e \<Rightarrow> Inl e | Inr ss \<Rightarrow> Inr (s # ss))"
| "items_str i (x # xs) =
     Inl (''sequence item '' @ show_nat i @ '': expected str instance, ''
          @ type_name x @ '' found'')"

fun py_join :: "string \<Rightarrow> json \<Rightarrow> string + string" where
  "py_join sep (JArr xs) =
     (case items_str 0 xs of Inl e \<Rightarrow> Inl e | Inr ss \<Rightarrow> Inr (join sep ss))"
| "py_join sep (JStr s) = Inr (join sep (map (\<lambda>c. [c]) s))"
| "py_join sep (JObj d) = Inr (join sep (map fst d))"
| "py_join sep v = Inl ''can only join an iterable''"

section \<open>Scope/pattern matcher\<close>

text \<open>\<open>PolicyEngine._matches_pattern(target, pattern)\<close>.\<close>

definition matches_pattern :: "string \<Rightarrow> string \<Rightarrow> bool" where
  "matches_pattern target pattern =
     (if target = pattern then True
      else if startswith pattern ''*.''
              \<and> (let domain_suffix = drop 2 pattern
                  in endswith target domain_suffix \<or> target = domain_suffix)
           then True
      else if endswith target (''.'' @ pattern) then True
      else False)"

section \<open>Policy decisions and the audit log\<close>

record policy_decision =
  decision :: json
  confidence :: json
  reason :: string
  details :: string

text \<open>
  One entry per call of \<open>log_policy_decision(target, action, decision, reason, confidence)\<close>;
  the call never raises (its body catches every storage error).
\<close>

record audit_call =
  a_target :: string
  a_action :: string
  a_decision :: json
  a_reason :: string
  a_confidence :: json

type_synonym audit = "audit_call list"

definition log_policy_decision ::
  "audit \<Rightarrow> string \<Rightarrow> string \<Rightarrow> json \<Rightarrow> string \<Rightarrow> json \<Rightarrow> audit" where
  "log_policy_decision au target action dec rsn conf =
     au @ [\<lparr>a_target = target, a_action = action, a_decision = dec,
             a_reason = rsn, a_confidence = conf\<rparr>]"

record config =
  GEMINI_API_KEY :: string
  ALLOW_MANUAL_UNBLOCK :: bool
  ml_weight :: real
  llm_weight :: real

section \<open>Advisory service\<close>

text \<open>
  The outcome of \<open>gemini_client.call_gemini(...)\<close> followed by \<open>json.loads(response)\<close>:
  the call raised (after its retries), the response text was not JSON, or it parsed to a
  value.  The first two carry the text of the exception.
\<close>

datatype advisory = CallRaised string | BadJson string | Parsed json

definition no_get :: "json \<Rightarrow> string" where
  "no_get v = sq @ type_name v @ sq @ '' object has no attribute '' @ sq @ ''get'' @ sq"

text \<open>The body of the \<open>try\<close> block of \<open>_validate_scope_with_gemini\<close>.\<close>

definition scope_payload :: "advisory \<Rightarrow> string + policy_decision" where
  "scope_payload adv =
     (case adv of
        CallRaised e \<Rightarrow> Inl e
      | BadJson e \<Rightarrow> Inl e
      | Parsed result \<Rightarrow>
          (case result of
             JObj d \<Rightarrow>
               (case py_join ''; '' (get_or d ''reasons'' (JArr [JStr ''Gemini validation''])) of
                  Inl e \<Rightarrow> Inl e
                | Inr rsn \<Rightarrow>
                    (case py_join ''; '' (get_or d ''suggested_next_steps'' (JArr [])) of
                       Inl e \<Rightarrow> Inl e
                     | Inr det \<Rightarrow>
                         Inr \<lparr>decision = get_or d ''decision'' (JStr ''UNKNOWN''),
                              confidence = get_or d ''confidence'' (JFloat 0),
                              reason = rsn, details = det\<rparr>))
           | _ \<Rightarrow> Inl (no_get result)))"

definition validate_scope_with_gemini :: "advisory \<Rightarrow> policy_decision" where
  "validate_scope_with_gemini adv =
     (case scope_payload adv of
        Inr d \<Rightarrow> d
      | Inl e \<Rightarrow> \<lparr>decision = JStr ''UNKNOWN'', confidence = JFloat 0,
                  reason = ''Gemini validation error: '' @ e,
                  details = ''Manual review required''\<rparr>)"

section \<open>Scope validation\<close>

text \<open>
  A loaded scope file: the \<open>in_scope\<close> and \<open>out_of_scope\<close> pattern lists (an absent key
  is the empty list).  The \<open>scope_file\<close> argument is absent, names a file that cannot be
  loaded (with the exception's text), or names a file holding scope data.
\<close>

record scope_data =
  in_scope :: "string list"
  out_of_scope :: "string list"

datatype scope_file = NoScopeFile | LoadFails string | Loaded scope_data

definition logged :: "audit \<Rightarrow> string \<Rightarrow> string \<Rightarrow> policy_decision \<Rightarrow> policy_decision \<times> audit" where
  "logged au target action d =
     (d, log_policy_decision au target action (decision d) (reason d) (confidence d))"

definition is_target_in_scope ::
  "config \<Rightarrow> advisory \<Rightarrow> string \<Rightarrow> scope_file \<Rightarrow> audit \<Rightarrow> policy_decision \<times> audit" where
  "is_target_in_scope cfg adv target sf au =
     (case sf of
        NoScopeFile \<Rightarrow>
          logged au target ''scope_check''
            \<lparr>decision = JStr ''UNKNOWN'', confidence = JFloat 0,
             reason = ''No scope file provided'',
             details = ''Provide --scope-file with in-scope targets from your bug bounty program''\<rparr>
      | LoadFails e \<Rightarrow>
          logged au target ''scope_check''
            \<lparr>decision = JStr ''UNKNOWN'', confidence = JFloat 0,
             reason = ''Failed to load scope file: '' @ e,
             details = ''Check scope file format''\<rparr>
      | Loaded scope \<Rightarrow>
          (case find (matches_pattern target) (out_of_scope scope) of
             Some pattern \<Rightarrow>
               logged au target ''scope_check''
                 \<lparr>decision = JStr ''BLOCKED'', confidence = JFloat 1,
                  reason = ''Target matches out-of-scope pattern: '' @ pattern,
                  details = ''This target is explicitly excluded from the program scope''\<rparr>
           | None \<Rightarrow>
               (case find (matches_pattern target) (in_scope scope) of
                  Some pattern \<Rightarrow>
                    logged au target ''scope_check''
                      \<lparr>decision = JStr ''ALLOWED'', confidence = JFloat 1,
                       reason = ''Target matches in-scope pattern: '' @ pattern,
                       details = ''Target is within defined program scope''\<rparr>
                | None \<Rightarrow>
                    if GEMINI_API_KEY cfg \<noteq> []
                    then logged au target ''scope_check_gemini'' (validate_scope_with_gemini adv)
                    else logged au target ''scope_check''
                           \<lparr>decision = JStr ''UNKNOWN'', confidence = JFloat 0,
                            reason = ''Target does not match any scope patterns'',
                            details = ''Add target to scope file or enable Gemini validation''\<rparr>)))"

section \<open>Action validation\<close>

text \<open>
  An action descriptor is a dict whose keys may be absent.  A manifest rule carries the
  \<open>id\<close>, \<open>pattern\<close> and \<open>notes\<close> entries the engine reads.
\<close>

record action_descriptor =
  ad_scanner :: "string option"
  ad_target :: "string option"
  ad_template :: "string option"
  ad_severity :: "string option"

record rule =
  rule_id :: string
  rule_pattern :: string
  rule_notes :: string

record manifest =
  blocked_patterns :: "rule list"
  requires_validation :: "rule list"

text \<open>
  \<open>_validate_action_with_gemini\<close>.  The parameter \<open>fmt\<close> is Python's \<open>str()\<close> on a
  parsed value, used by the f-string that renders \<open>risk_level\<close>.
\<close>

definition action_payload :: "(json \<Rightarrow> string) \<Rightarrow> advisory \<Rightarrow> string + policy_decision" where
  "action_payload fmt adv =
     (case adv of
        CallRaised e \<Rightarrow> Inl e
      | BadJson e \<Rightarrow> Inl e
      | Parsed result \<Rightarrow>
          (case result of
             JObj d \<Rightarrow>
               (case py_join ''; '' (get_or d ''reasons'' (JArr [JStr ''Gemini validation''])) of
                  Inl e \<Rightarrow> Inl e
                | Inr rsn \<Rightarrow>
                    Inr \<lparr>decision = get_or d ''decision'' (JStr ''BLOCKED''),
                         confidence = get_or d ''confidence'' (JFloat 0),
                         reason = rsn,
                         details = ''Risk level: '' @ fmt (get_or d ''risk_level'' (JStr ''unknown''))\<rparr>)
           | _ \<Rightarrow> Inl (no_get result)))"

definition validate_action_with_gemini :: "(json \<Rightarrow> string) \<Rightarrow> advisory \<Rightarrow> policy_decision" where
  "validate_action_with_gemini fmt adv =
     (case action_payload fmt adv of
        Inr d \<Rightarrow> d
      | Inl e \<Rightarrow> \<lparr>decision = JStr ''BLOCKED'', confidence = JFloat 0,
                  reason = ''Validation error: '' @ e,
                  details = ''Failed to validate, blocking for safety''\<rparr>)"

text \<open>
  \<open>validate_scanner_action\<close>.  The parameter \<open>rx pattern template\<close> is
  \<open>re.search(pattern, template, re.IGNORECASE)\<close> finding a match; \<open>first_rule\<close> is the
  loop over a rule list that stops at the first rule whose pattern is found.
\<close>

definition first_rule :: "(string \<Rightarrow> string \<Rightarrow> bool) \<Rightarrow> string \<Rightarrow> rule list \<Rightarrow> rule option" where
  "first_rule rx template rules = find (\<lambda>r. rx (rule_pattern r) template) rules"

definition validate_scanner_action ::
  "(string \<Rightarrow> string \<Rightarrow> bool) \<Rightarrow> (json \<Rightarrow> string) \<Rightarrow> config \<Rightarrow> manifest \<Rightarrow> advisory
   \<Rightarrow> action_descriptor \<Rightarrow> audit \<Rightarrow> policy_decision \<times> audit" where
  "validate_scanner_action rx fmt cfg mf adv ad au =
     (let scanner = opt_or (ad_scanner ad) ''unknown'';
          template = opt_or (ad_template ad) [];
          target = opt_or (ad_target ad) []
      in case first_rule rx template (blocked_patterns mf) of
           Some blocked \<Rightarrow>
             logged au target (''scanner_'' @ scanner)
               \<lparr>decision = JStr ''BLOCKED'', confidence = JFloat 1,
                reason = ''Template matches blocked pattern: '' @ rule_id blocked,
                details = rule_notes blocked\<rparr>
         | None \<Rightarrow>
             (case first_rule rx template (requires_validation mf) of
                Some validation_rule \<Rightarrow>
                  if GEMINI_API_KEY cfg \<noteq> []
                  then logged au target (''scanner_'' @ scanner @ ''_gemini'')
                         (validate_action_with_gemini fmt adv)
                  else logged au target (''scanner_'' @ scanner)
                         \<lparr>decision = JStr ''REQUIRES_VALIDATION'', confidence = JFloat (1 / 2),
                          reason = ''Template requires validation: '' @ rule_id validation_rule,
                          details = rule_notes validation_rule\<rparr>
              | None \<Rightarrow>
                  (\<lparr>decision = JStr ''ALLOWED'', confidence = JFloat 1,
                    reason = ''No policy restrictions matched'',
                    details = ''Action is within safe parameters''\<rparr>, au)))"

text \<open>
  \<open>re.search(p, t, re.IGNORECASE)\<close> for a pattern \<open>p\<close> without metacharacters: \<open>p\<close>
  occurs in \<open>t\<close>, letter case ignored.
\<close>

definition literal_search :: "string \<Rightarrow> string \<Rightarrow> bool" where
  "literal_search p t = list_ex (\<lambda>s. startswith s (lower p)) (suffixes (lower t))"

section \<open>Fusion triage scorer\<close>

text \<open>
  A finding holds the entries the scorer reads; \<open>f_evidence\<close> is the text
  \<open>str(finding.get('evidence', {}))\<close>.
\<close>

record finding =
  f_name :: "string option"
  f_description :: "string option"
  f_severity :: "string option"
  f_evidence :: string

text \<open>
  The classifier is untrained (no \<open>classes_\<close>), or trained with \<open>predict_proba\<close>
  either raising or returning the probability row of the text.
\<close>

datatype classifier = Untrained | Trained "string \<Rightarrow> string + real list"

text \<open>The dict \<open>gemini_client.score_finding\<close> returns; a key may be absent.\<close>

record llm_result =
  llm_score :: "json option"
  llm_explanation :: "json option"
  llm_confidence :: "json option"
  is_likely_fp :: "json option"

record triage_result =
  t_ml_score :: real
  t_llm_score :: json
  final_score :: real
  t_confidence :: json
  explanation :: json
  is_false_positive :: json
  severity_adjusted :: string

definition extract_text_features :: "finding \<Rightarrow> string" where
  "extract_text_features f =
     join '' '' [opt_or (f_name f) [], opt_or (f_description f) [],
                 opt_or (f_severity f) [], f_evidence f]"

definition ml_score :: "classifier \<Rightarrow> string \<Rightarrow> real" where
  "ml_score m text_features =
     (case m of
        Untrained \<Rightarrow> 1 / 2
      | Trained predict_proba \<Rightarrow>
          (case predict_proba text_features of
             Inl e \<Rightarrow> 1 / 2
           | Inr proba \<Rightarrow> if length proba > 1 then proba ! 1 else 1 / 2))"

definition adjust_severity :: "finding \<Rightarrow> real \<Rightarrow> string" where
  "adjust_severity f score =
     (let original_severity = lower (opt_or (f_severity f) ''unknown'')
      in if score < 3 / 10 then ''info''
         else if score < 5 / 10
              then (if original_severity \<in> set [''high'', ''critical''] then ''medium''
                    else original_severity)
         else if score > 8 / 10
              then (if original_severity = ''medium'' then ''high'' else original_severity)
         else original_severity)"

text \<open>\<open>w * v\<close> for a float \<open>w\<close> and a parsed value \<open>v\<close>; \<open>Inl\<close> is the \<open>TypeError\<close>.\<close>

fun times_float :: "real \<Rightarrow> json \<Rightarrow> string + real" where
  "times_float w (JInt i) = Inr (w * of_int i)"
| "times_float w (JFloat r) = Inr (w * r)"
| "times_float w (JBool b) = Inr (w * (if b then 1 else 0))"
| "times_float w (JStr s) = Inl (''can'' @ sq @ ''t multiply sequence by non-int of type '' @ sq @ ''float'' @ sq)"
| "times_float w (JArr xs) = Inl (''can'' @ sq @ ''t multiply sequence by non-int of type '' @ sq @ ''float'' @ sq)"
| "times_float w v = Inl (''unsupported operand type(s) for *: '' @ sq @ ''float'' @ sq
                           @ '' and '' @ sq @ type_name v @ sq)"

fun truthy :: "json \<Rightarrow> bool" where
  "truthy JNull = False"
| "truthy (JBool b) = b"
| "truthy (JInt i) = (i \<noteq> 0)"
| "truthy (JFloat r) = (r \<noteq> 0)"
| "truthy (JStr s) = (s \<noteq> [])"
| "truthy (JArr xs) = (xs \<noteq> [])"
| "truthy (JObj d) = (d \<noteq> [])"

text \<open>
  \<open>TriageEngine.score_finding\<close>; \<open>llm\<close> is what \<open>gemini_client.score_finding(finding)\<close>
  did: raised, or returned its dict.
\<close>

definition score_finding ::
  "config \<Rightarrow> classifier \<Rightarrow> string + llm_result \<Rightarrow> finding \<Rightarrow> string + triage_result" where
  "score_finding cfg m llm f =
     (let text_features = extract_text_features f;
          ml_sc = ml_score m text_features
      in case llm of
           Inl e \<Rightarrow> Inl e
         | Inr res \<Rightarrow>
             (let llm_sc = opt_or (llm_score res) (JFloat (1 / 2));
                  llm_expl = opt_or (llm_explanation res) (JStr []);
                  conf = opt_or (llm_confidence res) (JFloat (1 / 2))
              in case times_float (llm_weight cfg) llm_sc of
                   Inl e \<Rightarrow> Inl e
                 | Inr weighted \<Rightarrow>
                     (let final = ml_weight cfg * ml_sc + weighted;
                          fp = opt_or (is_likely_fp res) (JBool False)
                      in Inr \<lparr>t_ml_score = ml_sc, t_llm_score = llm_sc, final_score = final,
                              t_confidence = conf, explanation = llm_expl,
                              is_false_positive = (if truthy fp then fp else JBool (final < 3 / 10)),
                              severity_adjusted = adjust_severity f final\<rparr>)))"

section \<open>Pipeline orchestrator\<close>

text \<open>
  \<open>run_id = f"{int(time.time())}_{target.replace('.', '_')}"\<close>, from the clock reading
  \<open>now\<close>; \<open>int\<close> truncates towards zero.
\<close>

definition py_int :: "real \<Rightarrow> int" where
  "py_int r = (if r < 0 then \<lceil>r\<rceil> else \<lfloor>r\<rfloor>)"

definition run_id :: "real \<Rightarrow> string \<Rightarrow> string" where
  "run_id now target = show_int (py_int now) @ ''_'' @ replace_char CHR ''.'' CHR ''_'' target"

text \<open>
  What the collaborators of one run do: the clock, creating the output directory, the
  advisory service, the operator's console, passive reconnaissance (with writing
  \<open>recon.json\<close>), the Nuclei runner, the classifier, the advisory scoring of a finding,
  writing \<open>findings.json\<close> and generating the report.  \<open>Some e\<close> and \<open>Inl e\<close> are
  an exception with text \<open>e\<close>; \<open>recon\<close> returns the live hosts.
\<close>

record env =
  clock :: real
  mkdir :: "string option"
  scope_advisory :: advisory
  console :: "string + string"
  recon :: "string + string list"
  action_advisory :: "string \<Rightarrow> advisory"
  nuclei :: "string \<Rightarrow> string + finding list"
  model :: classifier
  llm :: "finding \<Rightarrow> string + llm_result"
  save_findings :: "string option"
  report :: "string option"

datatype stage = Recon | Probe | Crawl | Scan | Triage | Report

record pipeline_result =
  success :: bool
  fail_reason :: "string option"
  res_run_id :: string
  findings :: "nat option"

definition failed :: "string \<Rightarrow> string \<Rightarrow> pipeline_result" where
  "failed rsn rid = \<lparr>success = False, fail_reason = Some rsn, res_run_id = rid, findings = None\<rparr>"

definition succeeded :: "string \<Rightarrow> nat option \<Rightarrow> pipeline_result" where
  "succeeded rid n = \<lparr>success = True, fail_reason = None, res_run_id = rid, findings = n\<rparr>"

text \<open>\<open>_confirm_manual_override\<close>: \<open>input()\<close> raised, or the answer was compared.\<close>

definition confirm_manual_override :: "env \<Rightarrow> string \<Rightarrow> audit \<Rightarrow> string + (bool \<times> audit)" where
  "confirm_manual_override e target au =
     (case console e of
        Inl err \<Rightarrow> Inl err
      | Inr response \<Rightarrow>
          if strip response = ''I_ACCEPT_RISK''
          then Inr (True, log_policy_decision au target ''manual_override'' (JStr ''ALLOWED'')
                            ''User accepted risk with explicit confirmation'' (JFloat 1))
          else Inr (False, au))"

text \<open>Step 5: the loop over the live hosts, returning the findings collected.\<close>

fun scan_hosts ::
  "(string \<Rightarrow> string \<Rightarrow> bool) \<Rightarrow> (json \<Rightarrow> string) \<Rightarrow> config \<Rightarrow> manifest \<Rightarrow> env \<Rightarrow> string
   \<Rightarrow> string list \<Rightarrow> audit \<Rightarrow> finding list \<times> audit" where
  "scan_hosts rx fmt cfg mf e mode [] au = ([], au)"
| "scan_hosts rx fmt cfg mf e mode (host # hosts) au =
     (let (scan_decision, au1) =
            validate_scanner_action rx fmt cfg mf (action_advisory e host)
              \<lparr>ad_scanner = Some ''nuclei'', ad_target = Some host, ad_template = None,
               ad_severity = Some ''low,medium''\<rparr> au
      in if decision scan_decision = JStr ''BLOCKED'' then scan_hosts rx fmt cfg mf e mode hosts au1
         else if decision scan_decision = JStr ''REQUIRES_VALIDATION''
                 \<and> mode \<noteq> ''full-scan-with-validation''
              then scan_hosts rx fmt cfg mf e mode hosts au1
         else (let (rest, au2) = scan_hosts rx fmt cfg mf e mode hosts au1
               in ((case nuclei e host of Inl err \<Rightarrow> [] | Inr scan_results \<Rightarrow> scan_results) @ rest,
                   au2)))"

text \<open>Step 6: the findings whose scoring did not raise.\<close>

definition triaged_findings :: "config \<Rightarrow> env \<Rightarrow> finding list \<Rightarrow> triage_result list" where
  "triaged_findings cfg e fs =
     concat (map (\<lambda>f. case score_finding cfg (model e) (llm e f) f of
                         Inl err \<Rightarrow> [] | Inr r \<Rightarrow> [r]) fs)"

text \<open>Steps 2 to 7, inside the \<open>try\<close> block, with the stages entered.\<close>

definition later_stages ::
  "(string \<Rightarrow> string \<Rightarrow> bool) \<Rightarrow> (json \<Rightarrow> string) \<Rightarrow> config \<Rightarrow> manifest \<Rightarrow> env \<Rightarrow> string
   \<Rightarrow> string \<Rightarrow> audit \<Rightarrow> pipeline_result \<times> stage list \<times> audit" where
  "later_stages rx fmt cfg mf e rid mode au =
     (case recon e of
        Inl err \<Rightarrow> (failed err rid, [Recon], au)
      | Inr live_hosts \<Rightarrow>
          if mode = ''passive-only'' then (succeeded rid None, [Recon], au)
          else
            (let crawl = (if mode \<in> set [''safe-scan'', ''full-scan-with-validation'']
                          then [Crawl] else []);
                 (fs, au1) = scan_hosts rx fmt cfg mf e mode live_hosts au;
                 triaged = triaged_findings cfg e fs
             in case save_findings e of
                  Some err \<Rightarrow> (failed err rid, [Recon, Probe] @ crawl @ [Scan, Triage], au1)
                | None \<Rightarrow>
                    (case report e of
                       Some err \<Rightarrow>
                         (failed err rid, [Recon, Probe] @ crawl @ [Scan, Triage, Report], au1)
                     | None \<Rightarrow>
                         (succeeded rid (Some (length triaged)),
                          [Recon, Probe] @ crawl @ [Scan, Triage, Report], au1))))"

text \<open>
  \<open>Orchestrator.run_pipeline\<close>.  \<open>Inl\<close> is an exception leaving the function (creating
  the output directory happens before the \<open>try\<close> block); otherwise the result dict, the
  stages entered after the scope check, and the audit log.
\<close>

definition run_pipeline ::
  "(string \<Rightarrow> string \<Rightarrow> bool) \<Rightarrow> (json \<Rightarrow> string) \<Rightarrow> config \<Rightarrow> manifest \<Rightarrow> env \<Rightarrow> string
   \<Rightarrow> string \<Rightarrow> scope_file \<Rightarrow> bool \<Rightarrow> audit \<Rightarrow> string + (pipeline_result \<times> stage list \<times> audit)" where
  "run_pipeline rx fmt cfg mf e target mode sf allow_unblock au =
     (let rid = run_id (clock e) target
      in case mkdir e of
           Some err \<Rightarrow> Inl err
         | None \<Rightarrow>
             Inr (let (scope_decision, au1) =
                        is_target_in_scope cfg (scope_advisory e) target sf au
                  in if decision scope_decision = JStr ''BLOCKED''
                     then (failed ''blocked_by_policy'' rid, [], au1)
                     else if decision scope_decision = JStr ''UNKNOWN''
                     then (if \<not> allow_unblock \<or> \<not> ALLOW_MANUAL_UNBLOCK cfg
                           then (failed ''unknown_scope'' rid, [], au1)
                           else (case confirm_manual_override e target au1 of
                                   Inl err \<Rightarrow> (failed err rid, [], au1)
                                 | Inr (ok, au2) \<Rightarrow>
                                     if \<not> ok then (failed ''override_declined'' rid, [], au2)
                                     else later_stages rx fmt cfg mf e rid mode au2))
                     else later_stages rx fmt cfg mf e rid mode au1))"

section \<open>Example data\<close>

text \<open>
  Concrete inputs for the instances proved below: a configuration without and with an
  advisory key, a manifest whose patterns are plain words, the scope file of the
  specification's scenario, and a rendering function that is \<open>str()\<close> on strings, the
  only values the instances render (any other value is shown by its type name).
\<close>

definition example_config :: config where
  "example_config =
     \<lparr>GEMINI_API_KEY = [], ALLOW_MANUAL_UNBLOCK = True, ml_weight = 4 / 10, llm_weight = 6 / 10\<rparr>"

definition example_config_key :: config where
  "example_config_key = example_config\<lparr>GEMINI_API_KEY := ''key''\<rparr>"

definition example_manifest :: manifest where
  "example_manifest =
     \<lparr>blocked_patterns =
        [\<lparr>rule_id = ''file-upload-exec'', rule_pattern = ''webshell'',
          rule_notes = ''File upload exploitation - destructive''\<rparr>],
      requires_validation =
        [\<lparr>rule_id = ''auth-bypass'', rule_pattern = ''authentication'',
          rule_notes = ''Authentication testing - validate scope''\<rparr>]\<rparr>"

definition example_scope :: scope_data where
  "example_scope = \<lparr>in_scope = [''*.example.com''], out_of_scope = [''dev.example.com'']\<rparr>"

definition example_action :: "string \<Rightarrow> action_descriptor" where
  "example_action t =
     \<lparr>ad_scanner = Some ''nuclei'', ad_target = Some ''example.com'', ad_template = Some t,
      ad_severity = Some ''low''\<rparr>"

fun render_text :: "json \<Rightarrow> string" where
  "render_text (JStr s) = s"
| "render_text v = type_name v"

definition example_finding :: "string \<Rightarrow> finding" where
  "example_finding sev =
     \<lparr>f_name = Some ''Test Finding'', f_description = Some ''Test description'',
      f_severity = Some sev, f_evidence = ''{}''\<rparr>"

definition example_classifier :: classifier where
  "example_classifier = Trained (\<lambda>text_features. Inr [2 / 10, 8 / 10])"

definition example_llm_result :: llm_result where
  "example_llm_result =
     \<lparr>llm_score = Some (JFloat (4 / 10)), llm_explanation = Some (JStr ''plausible''),
      llm_confidence = Some (JFloat (7 / 10)), is_likely_fp = Some (JBool False)\<rparr>"

text \<open>The confirmation token as typed with a no-break space and a tab before it and a blank after it.\<close>

definition padded_answer :: string where
  "padded_answer = CHR 0xA0 # CHR 0x09 # ''I_ACCEPT_RISK ''"

definition example_env :: "string \<Rightarrow> env" where
  "example_env answer =
     \<lparr>clock = 17000000002 / 10, mkdir = None, scope_advisory = CallRaised ''unavailable'',
      console = Inr answer, recon = Inr [''www.example.com''],
      action_advisory = (\<lambda>host. CallRaised ''unavailable''),
      nuclei = (\<lambda>host. Inr [example_finding ''medium'']),
      model = example_classifier, llm = (\<lambda>f. Inr example_llm_result),
      save_findings = None, report = None\<rparr>"

section \<open>Helper lemmas\<close>

lemma find_first_match: "\<exists>p\<in>set ps. P p \<Longrightarrow> \<exists>p. find P ps = Some p"
  by (cases "find P ps") (auto simp: find_None_iff)

lemma endswith_suffix: "endswith s x \<longleftrightarrow> suffix x s"
proof
  assume "endswith s x"
  then have "s = take (length s - length x) s @ x"
    unfolding endswith_def by (metis append_take_drop_id)
  then show "suffix x s" by (rule suffixI)
next
  assume "suffix x s"
  then obtain zs where "s = zs @ x" by (auto simp: suffix_def)
  then show "endswith s x" by (simp add: endswith_def)
qed

text \<open>What the matcher computes on a wildcard pattern: the target ends with the suffix.\<close>

lemma wildcard_pattern_matches:
  "matches_pattern target (''*.'' @ D) \<longleftrightarrow> endswith target D"
proof -
  have a: "suffix (''.'' @ ''*.'' @ D) target \<Longrightarrow> suffix D target"
    by (metis suffix_appendD append.assoc)
  have b: "target = ''*.'' @ D \<Longrightarrow> suffix D target"
    by (simp add: suffix_def)
  show ?thesis
    unfolding matches_pattern_def startswith_def
    using a b by (auto simp add: endswith_suffix Let_def)
qed

lemma first_rule_None: "first_rule rx t rs = None \<longleftrightarrow> (\<forall>r\<in>set rs. \<not> rx (rule_pattern r) t)"
  by (auto simp add: first_rule_def find_None_iff)

lemma first_rule_Some: "\<exists>r\<in>set rs. rx (rule_pattern r) t \<Longrightarrow> \<exists>r. first_rule rx t rs = Some r"
  by (cases "first_rule rx t rs") (auto simp: first_rule_None)

lemma vsa_blocked:
  "first_rule rx (opt_or (ad_template ad) []) (blocked_patterns mf) = Some b \<Longrightarrow>
   validate_scanner_action rx fmt cfg mf adv ad au =
     logged au (opt_or (ad_target ad) []) (''scanner_'' @ opt_or (ad_scanner ad) ''unknown'')
       \<lparr>decision = JStr ''BLOCKED'', confidence = JFloat 1,
        reason = ''Template matches blocked pattern: '' @ rule_id b,
        details = rule_notes b\<rparr>"
  by (simp add: validate_scanner_action_def Let_def)

lemma vsa_validation:
  "first_rule rx (opt_or (ad_template ad) []) (blocked_patterns mf) = None \<Longrightarrow>
   first_rule rx (opt_or (ad_template ad) []) (requires_validation mf) = Some v \<Longrightarrow>
   validate_scanner_action rx fmt cfg mf adv ad au =
     (if GEMINI_API_KEY cfg \<noteq> []
      then logged au (opt_or (ad_target ad) [])
             (''scanner_'' @ opt_or (ad_scanner ad) ''unknown'' @ ''_gemini'')
             (validate_action_with_gemini fmt adv)
      else logged au (opt_or (ad_target ad) []) (''scanner_'' @ opt_or (ad_scanner ad) ''unknown'')
             \<lparr>decision = JStr ''REQUIRES_VALIDATION'', confidence = JFloat (1 / 2),
              reason = ''Template requires validation: '' @ rule_id v,
              details = rule_notes v\<rparr>)"
  by (simp add: validate_scanner_action_def Let_def)

lemma vsa_allowed:
  "first_rule rx (opt_or (ad_template ad) []) (blocked_patterns mf) = None \<Longrightarrow>
   first_rule rx (opt_or (ad_template ad) []) (requires_validation mf) = None \<Longrightarrow>
   validate_scanner_action rx fmt cfg mf adv ad au =
     (\<lparr>decision = JStr ''ALLOWED'', confidence = JFloat 1,
       reason = ''No policy restrictions matched'',
       details = ''Action is within safe parameters''\<rparr>, au)"
  by (simp add: validate_scanner_action_def Let_def)

lemma logged_appends:
  "\<exists>action. snd (logged au t a d)
     = au @ [\<lparr>a_target = t, a_action = action, a_decision = decision (fst (logged au t a d)),
              a_reason = reason (fst (logged au t a d)),
              a_confidence = confidence (fst (logged au t a d))\<rparr>]"
  by (simp add: logged_def log_policy_decision_def)

lemma scope_no_match:
  "find (matches_pattern target) (out_of_scope scope) = None \<Longrightarrow>
   find (matches_pattern target) (in_scope scope) = None \<Longrightarrow>
   is_target_in_scope cfg adv target (Loaded scope) au =
     (if GEMINI_API_KEY cfg \<noteq> []
      then logged au target ''scope_check_gemini'' (validate_scope_with_gemini adv)
      else logged au target ''scope_check''
             \<lparr>decision = JStr ''UNKNOWN'', confidence = JFloat 0,
              reason = ''Target does not match any scope patterns'',
              details = ''Add target to scope file or enable Gemini validation''\<rparr>)"
  by (simp add: is_target_in_scope_def)

lemma example_scope_other:
  "(\<forall>p\<in>set (out_of_scope example_scope). \<not> matches_pattern ''other.org'' p)
   \<and> (\<forall>p\<in>set (in_scope example_scope). \<not> matches_pattern ''other.org'' p)"
  by (simp add: example_scope_def matches_pattern_def startswith_def endswith_def)

lemma example_requires_validation:
  "(\<forall>b\<in>set (blocked_patterns example_manifest).
       \<not> literal_search (rule_pattern b) (opt_or (ad_template (example_action ''authentication-test'')) []))
   \<and> (\<exists>v\<in>set (requires_validation example_manifest).
       literal_search (rule_pattern v) (opt_or (ad_template (example_action ''authentication-test'')) []))"
  by (simp add: example_manifest_def example_action_def opt_or_def literal_search_def
        lower_def lower_char_def startswith_def)

lemma scope_payload_failure:
  "\<forall>d. adv \<noteq> Parsed (JObj d) \<Longrightarrow> \<exists>e. scope_payload adv = Inl e"
  by (cases adv; simp add: scope_payload_def split: json.splits)

lemma action_payload_failure:
  "\<forall>d. adv \<noteq> Parsed (JObj d) \<Longrightarrow> \<exists>e. action_payload fmt adv = Inl e"
  by (cases adv; simp add: action_payload_def split: json.splits)

lemma later_stages_advances:
  "\<exists>res st au'. later_stages rx fmt cfg mf e rid mode au = (res, Recon # st, au')"
  by (auto simp add: later_stages_def Let_def split: sum.splits option.splits prod.splits)

lemma run_pipeline_unfold:
  assumes "mkdir e = None"
    and "is_target_in_scope cfg (scope_advisory e) target sf au = (d, au1)"
  shows "run_pipeline rx fmt cfg mf e target mode sf allow_unblock au =
     Inr (if decision d = JStr ''BLOCKED''
          then (failed ''blocked_by_policy'' (run_id (clock e) target), [], au1)
          else if decision d = JStr ''UNKNOWN''
          then (if \<not> allow_unblock \<or> \<not> ALLOW_MANUAL_UNBLOCK cfg
                then (failed ''unknown_scope'' (run_id (clock e) target), [], au1)
                else (case confirm_manual_override e target au1 of
                        Inl err \<Rightarrow> (failed err (run_id (clock e) target), [], au1)
                      | Inr (ok, au2) \<Rightarrow>
                          if \<not> ok then (failed ''override_declined'' (run_id (clock e) target), [], au2)
                          else later_stages rx fmt cfg mf e (run_id (clock e) target) mode au2))
          else later_stages rx fmt cfg mf e (run_id (clock e) target) mode au1)"
  using assms by (simp add: run_pipeline_def Let_def)

lemma confirm_declined:
  "console e = Inr response \<Longrightarrow> strip response \<noteq> ''I_ACCEPT_RISK'' \<Longrightarrow>
   confirm_manual_override e target au = Inr (False, au)"
  by (simp add: confirm_manual_override_def)

lemma confirm_accepted:
  "console e = Inr response \<Longrightarrow> strip response = ''I_ACCEPT_RISK'' \<Longrightarrow>
   \<exists>au2. confirm_manual_override e target au = Inr (True, au2)"
  by (simp add: confirm_manual_override_def)

lemma confirm_True:
  "confirm_manual_override e target au = Inr (True, au2) \<Longrightarrow>
   \<exists>response. console e = Inr response \<and> strip response = ''I_ACCEPT_RISK''"
  by (auto simp add: confirm_manual_override_def split: sum.splits if_splits)

lemma example_mkdir: "mkdir (example_env answer) = None"
  by (simp add: example_env_def)

lemma example_no_scope_file:
  "decision (fst (is_target_in_scope cfg adv target NoScopeFile au)) = JStr ''UNKNOWN''"
  by (simp add: is_target_in_scope_def logged_def)

lemma example_scope_dev:
  "decision (fst (is_target_in_scope cfg adv ''dev.example.com'' (Loaded example_scope) au))
     = JStr ''BLOCKED''"
  by (simp add: is_target_in_scope_def logged_def example_scope_def matches_pattern_def)

lemma example_scope_api:
  "decision (fst (is_target_in_scope cfg adv ''api.example.com'' (Loaded example_scope) au))
     = JStr ''ALLOWED''"
  by (simp add: is_target_in_scope_def logged_def example_scope_def matches_pattern_def
        startswith_def endswith_def)

section \<open>Scope validation: exclusion precedence\<close>

text \<open>
  Claim C1.  For a loaded scope definition, a target that matches some \<open>out_of_scope\<close>
  pattern gets decision \<open>BLOCKED\<close> with confidence 1.0, and the \<open>in_scope\<close> list has no
  influence on the outcome: replacing it by any list \<open>ins\<close> leaves the returned decision
  and the audit log the same.
\<close>

theorem out_of_scope_blocked:
  assumes "\<exists>p\<in>set (out_of_scope scope). matches_pattern target p"
  shows "decision (fst (is_target_in_scope cfg adv target (Loaded scope) au)) = JStr ''BLOCKED''
       \<and> confidence (fst (is_target_in_scope cfg adv target (Loaded scope) au)) = JFloat 1
       \<and> is_target_in_scope cfg adv target (Loaded (scope\<lparr>in_scope := ins\<rparr>)) au
           = is_target_in_scope cfg adv target (Loaded scope) au"
proof -
  obtain p where "find (matches_pattern target) (out_of_scope scope) = Some p"
    using find_first_match [OF assms] by (rule exE)
  then show ?thesis
    by (simp add: is_target_in_scope_def logged_def)
qed

text \<open>
  The scenario of the specification: \<open>dev.example.com\<close> is excluded although it also
  matches the in-scope wildcard.
\<close>

theorem out_of_scope_blocked_witness:
  "matches_pattern ''dev.example.com'' ''*.example.com''
   \<and> decision (fst (is_target_in_scope
         \<lparr>GEMINI_API_KEY = [], ALLOW_MANUAL_UNBLOCK = False, ml_weight = 4 / 10, llm_weight = 6 / 10\<rparr>
         (CallRaised []) ''dev.example.com''
         (Loaded \<lparr>in_scope = [''*.example.com''], out_of_scope = [''dev.example.com'']\<rparr>) []))
       = JStr ''BLOCKED''"
proof -
  have h: "\<exists>p\<in>set (out_of_scope \<lparr>in_scope = [''*.example.com''], out_of_scope = [''dev.example.com'']\<rparr>).
             matches_pattern ''dev.example.com'' p"
    by (simp add: matches_pattern_def)
  have m: "matches_pattern ''dev.example.com'' ''*.example.com''"
    by (simp add: matches_pattern_def startswith_def endswith_def)
  from out_of_scope_blocked [OF h] m show ?thesis by simp
qed

section \<open>Wildcard patterns\<close>

text \<open>
  Claim C3.  The claim says that a pattern \<open>*.D\<close> matches exactly the targets equal to
  \<open>D\<close> or ending with \<open>.D\<close>.  The wildcard branch tests \<open>target.endswith(D)\<close> without
  the dot, so \<open>evilexample.com\<close> matches \<open>*.example.com\<close> although it neither equals
  \<open>example.com\<close> nor ends with \<open>.example.com\<close>.
\<close>

theorem wildcard_matches_undotted_suffix:
  "matches_pattern ''evilexample.com'' ''*.example.com''
   \<and> \<not> (''evilexample.com'' = ''example.com''
          \<or> endswith ''evilexample.com'' (''.'' @ ''example.com''))"
  by (simp add: matches_pattern_def startswith_def endswith_def)

section \<open>Run identifiers\<close>

text \<open>
  Claim C9.  The claim says that two runs of one process never share a \<open>run_id\<close>.  Two
  runs against \<open>example.com\<close> started half a second apart, within the same second of the
  clock, both get \<open>1700000000_example_com\<close>.
\<close>

theorem run_id_collision:
  "(17000000002 / 10 :: real) \<noteq> 17000000007 / 10
   \<and> run_id (17000000002 / 10) ''example.com'' = ''1700000000_example_com''
   \<and> run_id (17000000007 / 10) ''example.com'' = ''1700000000_example_com''"
  by (simp add: run_id_def py_int_def show_int_def show_nat.simps digit_def)

section \<open>Audit logging of action decisions\<close>

text \<open>
  Claim C10.  When the template matches no blocked pattern and no requires-validation
  pattern, \<open>validate_scanner_action\<close> returns \<open>ALLOWED\<close> with confidence 1.0 and leaves
  the audit log as it was: \<open>log_policy_decision\<close> is not called.  When some pattern
  matches (a blocked rule, or a requires-validation rule with or without escalation to the
  advisory service), exactly one record is appended, carrying the returned decision, reason
  and confidence.
\<close>

theorem allowed_default_not_logged:
  "((\<forall>b\<in>set (blocked_patterns mf). \<not> rx (rule_pattern b) (opt_or (ad_template ad) []))
     \<and> (\<forall>v\<in>set (requires_validation mf). \<not> rx (rule_pattern v) (opt_or (ad_template ad) []))
    \<longrightarrow> validate_scanner_action rx fmt cfg mf adv ad au
         = (\<lparr>decision = JStr ''ALLOWED'', confidence = JFloat 1,
             reason = ''No policy restrictions matched'',
             details = ''Action is within safe parameters''\<rparr>, au))
   \<and> ((\<exists>b\<in>set (blocked_patterns mf). rx (rule_pattern b) (opt_or (ad_template ad) []))
       \<or> (\<exists>v\<in>set (requires_validation mf). rx (rule_pattern v) (opt_or (ad_template ad) []))
    \<longrightarrow> (\<exists>action. snd (validate_scanner_action rx fmt cfg mf adv ad au)
           = au @ [\<lparr>a_target = opt_or (ad_target ad) [], a_action = action,
                    a_decision = decision (fst (validate_scanner_action rx fmt cfg mf adv ad au)),
                    a_reason = reason (fst (validate_scanner_action rx fmt cfg mf adv ad au)),
                    a_confidence = confidence (fst (validate_scanner_action rx fmt cfg mf adv ad au))\<rparr>]))"
proof (intro conjI impI)
  let ?t = "opt_or (ad_template ad) []"
  assume a: "(\<forall>b\<in>set (blocked_patterns mf). \<not> rx (rule_pattern b) ?t)
     \<and> (\<forall>v\<in>set (requires_validation mf). \<not> rx (rule_pattern v) ?t)"
  have 1: "first_rule rx ?t (blocked_patterns mf) = None"
    using a by (simp add: first_rule_None)
  have 2: "first_rule rx ?t (requires_validation mf) = None"
    using a by (simp add: first_rule_None)
  show "validate_scanner_action rx fmt cfg mf adv ad au
         = (\<lparr>decision = JStr ''ALLOWED'', confidence = JFloat 1,
             reason = ''No policy restrictions matched'',
             details = ''Action is within safe parameters''\<rparr>, au)"
    by (rule vsa_allowed [OF 1 2])
next
  let ?t = "opt_or (ad_template ad) []"
  let ?R = "validate_scanner_action rx fmt cfg mf adv ad au"
  assume m: "(\<exists>b\<in>set (blocked_patterns mf). rx (rule_pattern b) ?t)
       \<or> (\<exists>v\<in>set (requires_validation mf). rx (rule_pattern v) ?t)"
  show "\<exists>action. snd ?R
           = au @ [\<lparr>a_target = opt_or (ad_target ad) [], a_action = action,
                    a_decision = decision (fst ?R), a_reason = reason (fst ?R),
                    a_confidence = confidence (fst ?R)\<rparr>]"
  proof (cases "first_rule rx ?t (blocked_patterns mf)")
    case (Some b)
    show ?thesis
      unfolding vsa_blocked [OF Some] by (rule logged_appends)
  next
    case None
    then have "\<forall>b\<in>set (blocked_patterns mf). \<not> rx (rule_pattern b) ?t"
      by (simp add: first_rule_None)
    with m have ex: "\<exists>v\<in>set (requires_validation mf). rx (rule_pattern v) ?t"
      by simp
    obtain v where v: "first_rule rx ?t (requires_validation mf) = Some v"
      using first_rule_Some [of "requires_validation mf" rx ?t] ex by blast
    show ?thesis
    proof (cases "GEMINI_API_KEY cfg \<noteq> []")
      case True
      have eq: "?R = logged au (opt_or (ad_target ad) [])
             (''scanner_'' @ opt_or (ad_scanner ad) ''unknown'' @ ''_gemini'')
             (validate_action_with_gemini fmt adv)"
        using vsa_validation [OF None v] True by simp
      show ?thesis
        unfolding eq by (rule logged_appends)
    next
      case False
      have eq: "?R = logged au (opt_or (ad_target ad) []) (''scanner_'' @ opt_or (ad_scanner ad) ''unknown'')
             \<lparr>decision = JStr ''REQUIRES_VALIDATION'', confidence = JFloat (1 / 2),
              reason = ''Template requires validation: '' @ rule_id v,
              details = rule_notes v\<rparr>"
        using vsa_validation [OF None v] False by simp
      show ?thesis
        unfolding eq by (rule logged_appends)
    qed
  qed
qed


theorem allowed_default_not_logged_witness:
  "\<not> literal_search ''webshell'' ''http-missing-security-headers''
   \<and> \<not> literal_search ''authentication'' ''http-missing-security-headers''
   \<and> validate_scanner_action literal_search render_text example_config example_manifest
        (CallRaised []) (example_action ''http-missing-security-headers'') []
      = (\<lparr>decision = JStr ''ALLOWED'', confidence = JFloat 1,
          reason = ''No policy restrictions matched'',
          details = ''Action is within safe parameters''\<rparr>, [])
   \<and> (\<exists>b\<in>set (blocked_patterns example_manifest). literal_search (rule_pattern b) ''WebShell-upload'')
   \<and> (\<exists>action. snd (validate_scanner_action literal_search render_text example_config
                       example_manifest (CallRaised []) (example_action ''WebShell-upload'') [])
        = [\<lparr>a_target = ''example.com'', a_action = action, a_decision = JStr ''BLOCKED'',
            a_reason = ''Template matches blocked pattern: file-upload-exec'',
            a_confidence = JFloat 1\<rparr>])"
proof -
  have h1: "(\<forall>b\<in>set (blocked_patterns example_manifest).
        \<not> literal_search (rule_pattern b) (opt_or (ad_template (example_action ''http-missing-security-headers'')) []))
    \<and> (\<forall>v\<in>set (requires_validation example_manifest).
        \<not> literal_search (rule_pattern v) (opt_or (ad_template (example_action ''http-missing-security-headers'')) []))"
    by (simp add: example_manifest_def example_action_def opt_or_def literal_search_def
          lower_def lower_char_def startswith_def)
  have h2: "(\<exists>b\<in>set (blocked_patterns example_manifest).
        literal_search (rule_pattern b) (opt_or (ad_template (example_action ''WebShell-upload'')) []))
    \<or> (\<exists>v\<in>set (requires_validation example_manifest).
        literal_search (rule_pattern v) (opt_or (ad_template (example_action ''WebShell-upload'')) []))"
    by (simp add: example_manifest_def example_action_def opt_or_def literal_search_def
          lower_def lower_char_def startswith_def)
  have v: "fst (validate_scanner_action literal_search render_text example_config
                       example_manifest (CallRaised []) (example_action ''WebShell-upload'') [])
      = \<lparr>decision = JStr ''BLOCKED'', confidence = JFloat 1,
          reason = ''Template matches blocked pattern: file-upload-exec'',
          details = ''File upload exploitation - destructive''\<rparr>"
    by (simp add: validate_scanner_action_def first_rule_def example_manifest_def
          example_action_def opt_or_def literal_search_def lower_def lower_char_def
          startswith_def logged_def Let_def)
  note t1 = allowed_default_not_logged [where mf = example_manifest and rx = literal_search
      and ad = "example_action ''http-missing-security-headers''" and fmt = render_text
      and cfg = example_config and adv = "CallRaised []" and au = "[]",
      THEN conjunct1, rule_format, OF h1]
  note t2 = allowed_default_not_logged [where mf = example_manifest and rx = literal_search
      and ad = "example_action ''WebShell-upload''" and fmt = render_text
      and cfg = example_config and adv = "CallRaised []" and au = "[]",
      THEN conjunct2, rule_format, OF h2]
  have a: "opt_or (ad_target (example_action ''WebShell-upload'')) [] = ''example.com''"
    by (simp add: example_action_def opt_or_def)
  have b1: "opt_or (ad_template (example_action ''http-missing-security-headers'')) [] = ''http-missing-security-headers''"
    by (simp add: example_action_def opt_or_def)
  have b2: "opt_or (ad_template (example_action ''WebShell-upload'')) [] = ''WebShell-upload''"
    by (simp add: example_action_def opt_or_def)
  have h2': "\<exists>b\<in>set (blocked_patterns example_manifest). literal_search (rule_pattern b) ''WebShell-upload''"
    by (simp add: example_manifest_def literal_search_def lower_def lower_char_def startswith_def)
  have n: "\<not> literal_search ''webshell'' ''http-missing-security-headers''
      \<and> \<not> literal_search ''authentication'' ''http-missing-security-headers''"
    using h1 unfolding b1 by (simp add: example_manifest_def)
  show ?thesis
    using n t1 t2 h2' unfolding v a b1 by simp
qed

section \<open>Failure of the advisory call\<close>

text \<open>
  Claim C2.  With an advisory key configured: when the template matches no blocked pattern
  but some requires-validation pattern and the advisory call raises with text \<open>e\<close>,
  \<open>validate_scanner_action\<close> returns \<open>BLOCKED\<close> with confidence 0.0 and the reason
  \<open>Validation error: e\<close> (neither \<open>ALLOWED\<close> nor the provisional
  \<open>REQUIRES_VALIDATION\<close>); when the target matches no scope pattern and the advisory call
  raises, \<open>is_target_in_scope\<close> returns \<open>UNKNOWN\<close> with confidence 0.0.
\<close>

theorem advisory_call_failure:
  assumes key: "GEMINI_API_KEY cfg \<noteq> []"
  shows "((\<forall>b\<in>set (blocked_patterns mf). \<not> rx (rule_pattern b) (opt_or (ad_template ad) []))
          \<and> (\<exists>v\<in>set (requires_validation mf). rx (rule_pattern v) (opt_or (ad_template ad) []))
          \<longrightarrow> fst (validate_scanner_action rx fmt cfg mf (CallRaised e) ad au)
              = \<lparr>decision = JStr ''BLOCKED'', confidence = JFloat 0,
                 reason = ''Validation error: '' @ e,
                 details = ''Failed to validate, blocking for safety''\<rparr>)
       \<and> ((\<forall>p\<in>set (out_of_scope scope). \<not> matches_pattern target p)
          \<and> (\<forall>p\<in>set (in_scope scope). \<not> matches_pattern target p)
          \<longrightarrow> fst (is_target_in_scope cfg (CallRaised e) target (Loaded scope) au)
              = \<lparr>decision = JStr ''UNKNOWN'', confidence = JFloat 0,
                 reason = ''Gemini validation error: '' @ e,
                 details = ''Manual review required''\<rparr>)"
proof (intro conjI impI)
  let ?t = "opt_or (ad_template ad) []"
  assume a: "(\<forall>b\<in>set (blocked_patterns mf). \<not> rx (rule_pattern b) ?t)
          \<and> (\<exists>v\<in>set (requires_validation mf). rx (rule_pattern v) ?t)"
  have none: "first_rule rx ?t (blocked_patterns mf) = None"
    using a by (simp add: first_rule_None)
  have ex: "\<exists>v\<in>set (requires_validation mf). rx (rule_pattern v) ?t"
    using a by simp
  obtain v where v: "first_rule rx ?t (requires_validation mf) = Some v"
    using first_rule_Some [of "requires_validation mf" rx ?t] ex by blast
  show "fst (validate_scanner_action rx fmt cfg mf (CallRaised e) ad au)
              = \<lparr>decision = JStr ''BLOCKED'', confidence = JFloat 0,
                 reason = ''Validation error: '' @ e,
                 details = ''Failed to validate, blocking for safety''\<rparr>"
    using key
    by (simp add: vsa_validation [OF none v] logged_def validate_action_with_gemini_def
          action_payload_def)
next
  assume a: "(\<forall>p\<in>set (out_of_scope scope). \<not> matches_pattern target p)
          \<and> (\<forall>p\<in>set (in_scope scope). \<not> matches_pattern target p)"
  have o: "find (matches_pattern target) (out_of_scope scope) = None"
    using a by (simp add: find_None_iff)
  have i: "find (matches_pattern target) (in_scope scope) = None"
    using a by (simp add: find_None_iff)
  show "fst (is_target_in_scope cfg (CallRaised e) target (Loaded scope) au)
              = \<lparr>decision = JStr ''UNKNOWN'', confidence = JFloat 0,
                 reason = ''Gemini validation error: '' @ e,
                 details = ''Manual review required''\<rparr>"
    using key
    by (simp add: scope_no_match [OF o i] logged_def validate_scope_with_gemini_def
          scope_payload_def)
qed

theorem advisory_call_failure_witness:
  "GEMINI_API_KEY example_config_key \<noteq> []
   \<and> fst (validate_scanner_action literal_search render_text example_config_key example_manifest
            (CallRaised ''timeout'') (example_action ''authentication-test'') [])
      = \<lparr>decision = JStr ''BLOCKED'', confidence = JFloat 0,
         reason = ''Validation error: timeout'',
         details = ''Failed to validate, blocking for safety''\<rparr>
   \<and> fst (is_target_in_scope example_config_key (CallRaised ''timeout'') ''other.org''
            (Loaded example_scope) [])
      = \<lparr>decision = JStr ''UNKNOWN'', confidence = JFloat 0,
         reason = ''Gemini validation error: timeout'',
         details = ''Manual review required''\<rparr>"
proof -
  have k: "GEMINI_API_KEY example_config_key \<noteq> []"
    by (simp add: example_config_key_def example_config_def)
  note t = advisory_call_failure [OF k, where mf = example_manifest and rx = literal_search
      and ad = "example_action ''authentication-test''" and fmt = render_text
      and e = "''timeout''" and au = "[]" and scope = example_scope and target = "''other.org''"]
  from t example_scope_other example_requires_validation k show ?thesis
    by simp
qed

section \<open>Advisory payloads\<close>

text \<open>
  Claim C4 says that a payload whose decision value lies outside
  \<open>{ALLOWED, BLOCKED, UNKNOWN}\<close> is treated as a failure and that no such value is ever
  returned.  Neither escalation checks the value: for a target outside every scope pattern
  and the payload \<open>{"decision": "MAYBE", "confidence": 0.9, "reasons": ["looks fine"]}\<close>
  the scope decision is \<open>MAYBE\<close> with the payload's own confidence and reason.
\<close>

theorem advisory_decision_outside_enum:
  "fst (is_target_in_scope example_config_key
          (Parsed (JObj [(''decision'', JStr ''MAYBE''), (''confidence'', JFloat (9 / 10)),
                         (''reasons'', JArr [JStr ''looks fine''])]))
          ''other.org'' (Loaded example_scope) [])
     = \<lparr>decision = JStr ''MAYBE'', confidence = JFloat (9 / 10), reason = ''looks fine'',
        details = []\<rparr>
   \<and> JStr ''MAYBE'' \<noteq> JStr ''ALLOWED'' \<and> JStr ''MAYBE'' \<noteq> JStr ''BLOCKED''
   \<and> JStr ''MAYBE'' \<noteq> JStr ''UNKNOWN''"
proof -
  have o: "find (matches_pattern ''other.org'') (out_of_scope example_scope) = None"
    using example_scope_other by (simp add: find_None_iff)
  have i: "find (matches_pattern ''other.org'') (in_scope example_scope) = None"
    using example_scope_other by (simp add: find_None_iff)
  show ?thesis
    by (simp add: scope_no_match [OF o i] example_config_key_def example_config_def logged_def
          validate_scope_with_gemini_def scope_payload_def get_or_def)
qed

text \<open>
  Claim C4, as the code has it.  When the advisory call raises, its text is not JSON or the
  payload is not an object, the decision is the default of the operation (\<open>UNKNOWN\<close> for
  scope validation, \<open>BLOCKED\<close> for action validation) with confidence 0.0.  An object
  without a \<open>decision\<close> entry gets the same default decision.  A \<open>decision\<close> entry that
  is present is returned as it is, whatever its value, provided the \<open>reasons\<close> entry (and
  for scope validation the \<open>suggested_next_steps\<close> entry) can be joined.
\<close>

theorem advisory_payload_decision:
  "((\<forall>d. adv \<noteq> Parsed (JObj d))
     \<longrightarrow> decision (validate_scope_with_gemini adv) = JStr ''UNKNOWN''
       \<and> confidence (validate_scope_with_gemini adv) = JFloat 0
       \<and> decision (validate_action_with_gemini fmt adv) = JStr ''BLOCKED''
       \<and> confidence (validate_action_with_gemini fmt adv) = JFloat 0)
   \<and> (map_of d ''decision'' = None
     \<longrightarrow> decision (validate_scope_with_gemini (Parsed (JObj d))) = JStr ''UNKNOWN''
       \<and> decision (validate_action_with_gemini fmt (Parsed (JObj d))) = JStr ''BLOCKED'')
   \<and> (map_of d ''decision'' = Some v
       \<and> py_join ''; '' (get_or d ''reasons'' (JArr [JStr ''Gemini validation''])) = Inr rsn
     \<longrightarrow> decision (validate_action_with_gemini fmt (Parsed (JObj d))) = v
       \<and> (py_join ''; '' (get_or d ''suggested_next_steps'' (JArr [])) = Inr det
           \<longrightarrow> decision (validate_scope_with_gemini (Parsed (JObj d))) = v))"
proof (intro conjI impI)
  assume a: "\<forall>d. adv \<noteq> Parsed (JObj d)"
  obtain e1 where e1: "scope_payload adv = Inl e1"
    using scope_payload_failure [OF a] by (rule exE)
  obtain e2 where e2: "action_payload fmt adv = Inl e2"
    using action_payload_failure [OF a] by (rule exE)
  show "decision (validate_scope_with_gemini adv) = JStr ''UNKNOWN''"
    and "confidence (validate_scope_with_gemini adv) = JFloat 0"
    by (simp_all add: validate_scope_with_gemini_def e1)
  show "decision (validate_action_with_gemini fmt adv) = JStr ''BLOCKED''"
    and "confidence (validate_action_with_gemini fmt adv) = JFloat 0"
    by (simp_all add: validate_action_with_gemini_def e2)
next
  assume "map_of d ''decision'' = None"
  then show "decision (validate_scope_with_gemini (Parsed (JObj d))) = JStr ''UNKNOWN''"
    by (simp add: validate_scope_with_gemini_def scope_payload_def get_or_def split: sum.splits)
next
  assume "map_of d ''decision'' = None"
  then show "decision (validate_action_with_gemini fmt (Parsed (JObj d))) = JStr ''BLOCKED''"
    by (simp add: validate_action_with_gemini_def action_payload_def get_or_def split: sum.splits)
next
  assume "map_of d ''decision'' = Some v
       \<and> py_join ''; '' (get_or d ''reasons'' (JArr [JStr ''Gemini validation''])) = Inr rsn"
  then show "decision (validate_action_with_gemini fmt (Parsed (JObj d))) = v"
    by (simp add: validate_action_with_gemini_def action_payload_def get_or_def)
next
  assume "map_of d ''decision'' = Some v
       \<and> py_join ''; '' (get_or d ''reasons'' (JArr [JStr ''Gemini validation''])) = Inr rsn"
    and "py_join ''; '' (get_or d ''suggested_next_steps'' (JArr [])) = Inr det"
  then show "decision (validate_scope_with_gemini (Parsed (JObj d))) = v"
    by (simp add: validate_scope_with_gemini_def scope_payload_def get_or_def)
qed

theorem advisory_payload_decision_witness:
  "(\<forall>d. Parsed (JArr []) \<noteq> Parsed (JObj d))
   \<and> decision (validate_scope_with_gemini (Parsed (JArr []))) = JStr ''UNKNOWN''
   \<and> decision (validate_action_with_gemini render_text (Parsed (JArr []))) = JStr ''BLOCKED''
   \<and> map_of [(''confidence'', JFloat (9 / 10))] ''decision'' = None
   \<and> decision (validate_scope_with_gemini (Parsed (JObj [(''confidence'', JFloat (9 / 10))])))
       = JStr ''UNKNOWN''
   \<and> decision (validate_action_with_gemini render_text (Parsed (JObj [(''confidence'', JFloat (9 / 10))])))
       = JStr ''BLOCKED''
   \<and> map_of [(''decision'', JStr ''MAYBE'')] ''decision'' = Some (JStr ''MAYBE'')
   \<and> decision (validate_action_with_gemini render_text (Parsed (JObj [(''decision'', JStr ''MAYBE'')])))
       = JStr ''MAYBE''
   \<and> decision (validate_scope_with_gemini (Parsed (JObj [(''decision'', JStr ''MAYBE'')])))
       = JStr ''MAYBE''"
proof -
  have h1: "\<forall>d. Parsed (JArr []) \<noteq> Parsed (JObj d)" by simp
  have h2: "map_of [(''confidence'', JFloat (9 / 10))] ''decision'' = None" by simp
  have h3: "map_of [(''decision'', JStr ''MAYBE'')] ''decision'' = Some (JStr ''MAYBE'')
       \<and> py_join ''; '' (get_or [(''decision'', JStr ''MAYBE'')] ''reasons'' (JArr [JStr ''Gemini validation'']))
           = Inr ''Gemini validation''"
    by (simp add: get_or_def)
  have h4: "py_join ''; '' (get_or [(''decision'', JStr ''MAYBE'')] ''suggested_next_steps'' (JArr [])) = Inr []"
    by (simp add: get_or_def)
  note t1 = advisory_payload_decision [where adv = "Parsed (JArr [])" and fmt = render_text,
      THEN conjunct1, THEN mp, OF h1]
  note t2 = advisory_payload_decision [where d = "[(''confidence'', JFloat (9 / 10))]" and fmt = render_text,
      THEN conjunct2, THEN conjunct1, THEN mp, OF h2]
  note t3 = advisory_payload_decision [where d = "[(''decision'', JStr ''MAYBE'')]" and fmt = render_text,
      THEN conjunct2, THEN conjunct2, THEN mp, OF h3]
  from t3 have t3a: "decision (validate_action_with_gemini render_text (Parsed (JObj [(''decision'', JStr ''MAYBE'')]))) = JStr ''MAYBE''"
    by (rule conjunct1)
  from t3 h4 have t3b: "decision (validate_scope_with_gemini (Parsed (JObj [(''decision'', JStr ''MAYBE'')]))) = JStr ''MAYBE''"
    by blast
  from h1 h2 h3 t1 t2 t3a t3b show ?thesis by blast
qed

section \<open>Severity adjustment\<close>

text \<open>
  Claim C5 says that outside the remapped cases the original severity is left unchanged,
  and that a score of exactly 0.3 does not yield \<open>info\<close>.  The function lower-cases the
  severity before anything else, so \<open>High\<close> at score 0.6 comes back as \<open>high\<close>; and a
  finding whose severity is \<open>info\<close> keeps it at score 0.3.
\<close>

theorem severity_not_unchanged:
  "adjust_severity (example_finding ''High'') (6 / 10) = ''high''
   \<and> ''high'' \<noteq> ''High''
   \<and> adjust_severity (example_finding ''info'') (3 / 10) = ''info''"
  by (simp add: adjust_severity_def example_finding_def opt_or_def lower_def lower_char_def)

text \<open>
  Claim C5, as the code has it.  With \<open>sev\<close> the lower-cased severity of the finding
  (\<open>unknown\<close> when the finding has none): a score below 0.3 yields \<open>info\<close> (so 0.2999
  does); a score from 0.3 up to but excluding 0.5 yields \<open>medium\<close> when \<open>sev\<close> is
  \<open>high\<close> or \<open>critical\<close> and \<open>sev\<close> otherwise; a score above 0.8 yields \<open>high\<close> when
  \<open>sev\<close> is \<open>medium\<close> and \<open>sev\<close> otherwise; every other score yields \<open>sev\<close>.
  Scores are modelled as reals.
\<close>

theorem severity_adjustment:
  "(score < 3 / 10 \<longrightarrow> adjust_severity f score = ''info'')
   \<and> (3 / 10 \<le> score \<and> score < 5 / 10 \<longrightarrow>
        adjust_severity f score =
          (if lower (opt_or (f_severity f) ''unknown'') = ''high''
              \<or> lower (opt_or (f_severity f) ''unknown'') = ''critical''
           then ''medium'' else lower (opt_or (f_severity f) ''unknown'')))
   \<and> (8 / 10 < score \<longrightarrow>
        adjust_severity f score =
          (if lower (opt_or (f_severity f) ''unknown'') = ''medium''
           then ''high'' else lower (opt_or (f_severity f) ''unknown'')))
   \<and> (5 / 10 \<le> score \<and> score \<le> 8 / 10 \<longrightarrow>
        adjust_severity f score = lower (opt_or (f_severity f) ''unknown''))
   \<and> adjust_severity f (2999 / 10000) = ''info''"
  by (simp add: adjust_severity_def Let_def)

theorem severity_adjustment_witness:
  "(2 / 10 :: real) < 3 / 10
   \<and> adjust_severity (example_finding ''high'') (2 / 10) = ''info''
   \<and> (3 / 10 :: real) \<le> 3 / 10 \<and> (3 / 10 :: real) < 5 / 10
   \<and> adjust_severity (example_finding ''Critical'') (3 / 10) = ''medium''
   \<and> (8 / 10 :: real) < 9 / 10
   \<and> adjust_severity (example_finding ''medium'') (9 / 10) = ''high''
   \<and> (5 / 10 :: real) \<le> 6 / 10 \<and> (6 / 10 :: real) \<le> 8 / 10
   \<and> adjust_severity (example_finding ''Medium'') (6 / 10) = ''medium''"
proof -
  have l1: "lower (opt_or (f_severity (example_finding ''Critical'')) ''unknown'') = ''critical''"
    by (simp add: example_finding_def opt_or_def lower_def lower_char_def)
  have l2: "lower (opt_or (f_severity (example_finding ''medium'')) ''unknown'') = ''medium''"
    by (simp add: example_finding_def opt_or_def lower_def lower_char_def)
  have l3: "lower (opt_or (f_severity (example_finding ''Medium'')) ''unknown'') = ''medium''"
    by (simp add: example_finding_def opt_or_def lower_def lower_char_def)
  have h1: "(2 / 10 :: real) < 3 / 10" by simp
  have h2: "(3 / 10 :: real) \<le> 3 / 10 \<and> (3 / 10 :: real) < 5 / 10" by simp
  have h3: "(8 / 10 :: real) < 9 / 10" by simp
  have h4: "(5 / 10 :: real) \<le> 6 / 10 \<and> (6 / 10 :: real) \<le> 8 / 10" by simp
  note t1 = severity_adjustment [where f = "example_finding ''high''" and score = "2 / 10",
      THEN conjunct1, THEN mp, OF h1]
  note t2 = severity_adjustment [where f = "example_finding ''Critical''" and score = "3 / 10",
      THEN conjunct2, THEN conjunct1, THEN mp, OF h2]
  note t3 = severity_adjustment [where f = "example_finding ''medium''" and score = "9 / 10",
      THEN conjunct2, THEN conjunct2, THEN conjunct1, THEN mp, OF h3]
  note t4 = severity_adjustment [where f = "example_finding ''Medium''" and score = "6 / 10",
      THEN conjunct2, THEN conjunct2, THEN conjunct2, THEN conjunct1, THEN mp, OF h4]
  from t2 have t2': "adjust_severity (example_finding ''Critical'') (3 / 10) = ''medium''"
    unfolding l1 by simp
  from t3 have t3': "adjust_severity (example_finding ''medium'') (9 / 10) = ''high''"
    unfolding l2 by simp
  from t4 have t4': "adjust_severity (example_finding ''Medium'') (6 / 10) = ''medium''"
    unfolding l3 by simp
  from h1 h2 h3 h4 t1 t2' t3' t4' show ?thesis by blast
qed

section \<open>Fusion score\<close>

text \<open>
  Claim C6.  Whenever the advisory scoring returns a dict whose \<open>llm_score\<close> (0.5 when
  the key is absent) is a float \<open>x\<close>, \<open>score_finding\<close> returns a result, and its
  \<open>final_score\<close> is \<open>ml_weight * ml_score + llm_weight * x\<close>, with \<open>ml_score\<close> the
  classifier's score of the finding's text features; nothing is assumed about the sum of the
  weights.  The instance below is the scenario of the claim: weights 0.4 and 0.6, scores 0.8
  and 0.4, final score 0.56.  Scores and weights are modelled as reals.
\<close>

theorem fusion_score:
  assumes "opt_or (llm_score res) (JFloat (1 / 2)) = JFloat x"
  shows "\<exists>r. score_finding cfg m (Inr res) f = Inr r
           \<and> t_ml_score r = ml_score m (extract_text_features f)
           \<and> t_llm_score r = JFloat x
           \<and> final_score r = ml_weight cfg * t_ml_score r + llm_weight cfg * x"
  using assms by (simp add: score_finding_def Let_def)

theorem fusion_score_witness:
  "opt_or (llm_score example_llm_result) (JFloat (1 / 2)) = JFloat (4 / 10)
   \<and> ml_weight example_config = 4 / 10 \<and> llm_weight example_config = 6 / 10
   \<and> (\<exists>r. score_finding example_config example_classifier (Inr example_llm_result)
              (example_finding ''medium'') = Inr r
          \<and> t_ml_score r = 8 / 10 \<and> t_llm_score r = JFloat (4 / 10)
          \<and> final_score r = 56 / 100)"
proof -
  have h: "opt_or (llm_score example_llm_result) (JFloat (1 / 2)) = JFloat (4 / 10)"
    by (simp add: example_llm_result_def opt_or_def)
  have w: "ml_weight example_config = 4 / 10 \<and> llm_weight example_config = 6 / 10"
    by (simp add: example_config_def)
  have m: "ml_score example_classifier (extract_text_features (example_finding ''medium'')) = 8 / 10"
    by (simp add: ml_score_def example_classifier_def)
  obtain r where r: "score_finding example_config example_classifier (Inr example_llm_result)
              (example_finding ''medium'') = Inr r"
      "t_ml_score r = ml_score example_classifier (extract_text_features (example_finding ''medium''))"
      "t_llm_score r = JFloat (4 / 10)"
      "final_score r = ml_weight example_config * t_ml_score r + llm_weight example_config * (4 / 10)"
    using fusion_score [OF h, where cfg = example_config and m = example_classifier
        and f = "example_finding ''medium''"] by blast
  have "final_score r = 56 / 100"
    using r(2,4) m w by simp
  with r m h w show ?thesis by simp
qed

section \<open>The scope check of the pipeline\<close>

text \<open>
  Claim C7 says that an \<open>UNKNOWN\<close> scope decision without a valid manual override ends
  the run with reason \<open>unknown_scope\<close>.  When manual override is enabled and the operator's
  answer to the confirmation prompt, stripped of surrounding whitespace, is anything but the
  token, no override is given, and the run ends with reason \<open>override_declined\<close>.
\<close>

theorem declined_override_reason:
  "run_pipeline literal_search render_text example_config example_manifest (example_env ''no'')
     ''other.org'' ''safe-scan'' NoScopeFile True []
   = Inr (failed ''override_declined'' ''1700000000_other_org'', [],
          [\<lparr>a_target = ''other.org'', a_action = ''scope_check'', a_decision = JStr ''UNKNOWN'',
            a_reason = ''No scope file provided'', a_confidence = JFloat 0\<rparr>])"
proof -
  have m: "mkdir (example_env ''no'') = None"
    by (simp add: example_env_def)
  have rid: "run_id (clock (example_env ''no'')) ''other.org'' = ''1700000000_other_org''"
    by (simp add: example_env_def run_id_def py_int_def show_int_def show_nat.simps digit_def)
  have s: "is_target_in_scope example_config (scope_advisory (example_env ''no'')) ''other.org'' NoScopeFile []
      = (\<lparr>decision = JStr ''UNKNOWN'', confidence = JFloat 0,
           reason = ''No scope file provided'',
           details = ''Provide --scope-file with in-scope targets from your bug bounty program''\<rparr>,
         [\<lparr>a_target = ''other.org'', a_action = ''scope_check'', a_decision = JStr ''UNKNOWN'',
            a_reason = ''No scope file provided'', a_confidence = JFloat 0\<rparr>])"
    by (simp add: is_target_in_scope_def logged_def log_policy_decision_def)
  have c: "confirm_manual_override (example_env ''no'') ''other.org'' au = Inr (False, au)" for au
    by (simp add: confirm_manual_override_def example_env_def strip_def is_space_def)
  show ?thesis
    unfolding run_pipeline_unfold [OF m s] rid c
    by (simp add: example_config_def)
qed


text \<open>
  Claim C7, as the code has it.  Once the output directory exists, with \<open>d\<close> the scope
  decision: \<open>BLOCKED\<close> ends the run with reason \<open>blocked_by_policy\<close>; \<open>UNKNOWN\<close> with
  manual override not enabled (\<open>allow_unblock\<close> or \<open>ALLOW_MANUAL_UNBLOCK\<close> false) ends it
  with \<open>unknown_scope\<close>; \<open>UNKNOWN\<close> with override enabled and an answer that, stripped
  of surrounding whitespace, is other than \<open>I_ACCEPT_RISK\<close> ends it with
  \<open>override_declined\<close>; in these three cases no later stage is entered and the audit log
  is the one the scope check left.  \<open>UNKNOWN\<close> with the override accepted (the stripped
  answer is the token), and every decision other than \<open>BLOCKED\<close> and \<open>UNKNOWN\<close>,
  enters reconnaissance.  Conversely a run that entered any later stage had a decision
  other than \<open>BLOCKED\<close>, and if it was \<open>UNKNOWN\<close> the override was enabled and accepted.
  In the instance below the accepted answer is the token padded with a no-break space, a
  tab and a blank, which \<open>str.strip\<close> removes.
\<close>

theorem scope_check_gate:
  fixes rx fmt cfg mf e target mode sf allow_unblock au
  defines "d \<equiv> fst (is_target_in_scope cfg (scope_advisory e) target sf au)"
    and "au1 \<equiv> snd (is_target_in_scope cfg (scope_advisory e) target sf au)"
    and "rid \<equiv> run_id (clock e) target"
    and "R \<equiv> run_pipeline rx fmt cfg mf e target mode sf allow_unblock au"
  assumes mk: "mkdir e = None"
  shows "(decision d = JStr ''BLOCKED'' \<longrightarrow> R = Inr (failed ''blocked_by_policy'' rid, [], au1))
    \<and> (decision d = JStr ''UNKNOWN'' \<and> \<not> (allow_unblock \<and> ALLOW_MANUAL_UNBLOCK cfg)
        \<longrightarrow> R = Inr (failed ''unknown_scope'' rid, [], au1))
    \<and> (decision d = JStr ''UNKNOWN'' \<and> allow_unblock \<and> ALLOW_MANUAL_UNBLOCK cfg
          \<and> console e = Inr response \<and> strip response \<noteq> ''I_ACCEPT_RISK''
        \<longrightarrow> R = Inr (failed ''override_declined'' rid, [], au1))
    \<and> (decision d = JStr ''UNKNOWN'' \<and> allow_unblock \<and> ALLOW_MANUAL_UNBLOCK cfg
          \<and> console e = Inr response \<and> strip response = ''I_ACCEPT_RISK''
        \<longrightarrow> (\<exists>res st au'. R = Inr (res, Recon # st, au')))
    \<and> (decision d \<noteq> JStr ''BLOCKED'' \<and> decision d \<noteq> JStr ''UNKNOWN''
        \<longrightarrow> (\<exists>res st au'. R = Inr (res, Recon # st, au')))
    \<and> (R = Inr (res, st, au') \<and> st \<noteq> []
        \<longrightarrow> decision d \<noteq> JStr ''BLOCKED''
          \<and> (decision d = JStr ''UNKNOWN''
              \<longrightarrow> allow_unblock \<and> ALLOW_MANUAL_UNBLOCK cfg
                \<and> (\<exists>answer. console e = Inr answer \<and> strip answer = ''I_ACCEPT_RISK'')))"
proof -
  have s: "is_target_in_scope cfg (scope_advisory e) target sf au = (d, au1)"
    by (simp add: d_def au1_def)
  note u = run_pipeline_unfold [OF mk s, of rx fmt mf mode allow_unblock, folded rid_def R_def]
  have c1: "decision d = JStr ''BLOCKED'' \<longrightarrow> R = Inr (failed ''blocked_by_policy'' rid, [], au1)"
    by (simp add: u)
  have c2: "decision d = JStr ''UNKNOWN'' \<and> \<not> (allow_unblock \<and> ALLOW_MANUAL_UNBLOCK cfg)
        \<longrightarrow> R = Inr (failed ''unknown_scope'' rid, [], au1)"
    by (auto simp add: u)
  have c3: "decision d = JStr ''UNKNOWN'' \<and> allow_unblock \<and> ALLOW_MANUAL_UNBLOCK cfg
          \<and> console e = Inr response \<and> strip response \<noteq> ''I_ACCEPT_RISK''
        \<longrightarrow> R = Inr (failed ''override_declined'' rid, [], au1)"
    by (auto simp add: u confirm_declined)
  have c4: "decision d = JStr ''UNKNOWN'' \<and> allow_unblock \<and> ALLOW_MANUAL_UNBLOCK cfg
          \<and> console e = Inr response \<and> strip response = ''I_ACCEPT_RISK''
        \<longrightarrow> (\<exists>res st au'. R = Inr (res, Recon # st, au'))"
  proof
    assume a: "decision d = JStr ''UNKNOWN'' \<and> allow_unblock \<and> ALLOW_MANUAL_UNBLOCK cfg
          \<and> console e = Inr response \<and> strip response = ''I_ACCEPT_RISK''"
    then obtain au2 where "confirm_manual_override e target au1 = Inr (True, au2)"
      using confirm_accepted [of e response target au1] by blast
    with a have "R = Inr (later_stages rx fmt cfg mf e rid mode au2)"
      by (simp add: u)
    then show "\<exists>res st au'. R = Inr (res, Recon # st, au')"
      using later_stages_advances [of rx fmt cfg mf e rid mode au2] by auto
  qed
  have c5: "decision d \<noteq> JStr ''BLOCKED'' \<and> decision d \<noteq> JStr ''UNKNOWN''
        \<longrightarrow> (\<exists>res st au'. R = Inr (res, Recon # st, au'))"
  proof
    assume "decision d \<noteq> JStr ''BLOCKED'' \<and> decision d \<noteq> JStr ''UNKNOWN''"
    then have "R = Inr (later_stages rx fmt cfg mf e rid mode au1)"
      by (simp add: u)
    then show "\<exists>res st au'. R = Inr (res, Recon # st, au')"
      using later_stages_advances [of rx fmt cfg mf e rid mode au1] by auto
  qed
  have c6: "R = Inr (res, st, au') \<and> st \<noteq> []
        \<longrightarrow> decision d \<noteq> JStr ''BLOCKED''
          \<and> (decision d = JStr ''UNKNOWN''
              \<longrightarrow> allow_unblock \<and> ALLOW_MANUAL_UNBLOCK cfg
                \<and> (\<exists>answer. console e = Inr answer \<and> strip answer = ''I_ACCEPT_RISK''))"
  proof (intro impI conjI)
    assume a: "R = Inr (res, st, au') \<and> st \<noteq> []"
    show "decision d \<noteq> JStr ''BLOCKED''"
      using a by (auto simp add: u)
    assume k: "decision d = JStr ''UNKNOWN''"
    show "allow_unblock" and "ALLOW_MANUAL_UNBLOCK cfg"
      using a k by (auto simp add: u split: if_splits)
    then have en: "\<not> (\<not> allow_unblock \<or> \<not> ALLOW_MANUAL_UNBLOCK cfg)" by simp
    show "\<exists>answer. console e = Inr answer \<and> strip answer = ''I_ACCEPT_RISK''"
    proof (cases "confirm_manual_override e target au1")
      case (Inl err)
      with a k en show ?thesis by (auto simp add: u)
    next
      case (Inr p)
      obtain ok au2 where p: "p = (ok, au2)" by (cases p)
      show ?thesis
      proof (cases ok)
        case True
        with Inr p show ?thesis using confirm_True [of e target au1 au2] by simp
      next
        case False
        with a k en Inr p show ?thesis by (auto simp add: u)
      qed
    qed
  qed
  from c1 c2 c3 c4 c5 c6 show ?thesis by blast
qed


theorem scope_check_gate_witness:
  "(\<exists>rid au1. run_pipeline literal_search render_text example_config example_manifest
       (example_env ''no'') ''dev.example.com'' ''safe-scan'' (Loaded example_scope) True []
     = Inr (failed ''blocked_by_policy'' rid, [], au1))
   \<and> (\<exists>rid au1. run_pipeline literal_search render_text example_config example_manifest
       (example_env ''no'') ''other.org'' ''safe-scan'' NoScopeFile False []
     = Inr (failed ''unknown_scope'' rid, [], au1))
   \<and> (\<exists>rid au1. run_pipeline literal_search render_text example_config example_manifest
       (example_env ''no'') ''other.org'' ''safe-scan'' NoScopeFile True []
     = Inr (failed ''override_declined'' rid, [], au1))
   \<and> (\<exists>res st au'. run_pipeline literal_search render_text example_config example_manifest
       (example_env padded_answer) ''other.org'' ''safe-scan'' NoScopeFile True []
     = Inr (res, Recon # st, au'))
   \<and> (\<exists>res st au'. run_pipeline literal_search render_text example_config example_manifest
       (example_env ''no'') ''api.example.com'' ''safe-scan'' (Loaded example_scope) False []
     = Inr (res, st, au') \<and> st \<noteq> []
       \<and> decision (fst (is_target_in_scope example_config (scope_advisory (example_env ''no''))
                          ''api.example.com'' (Loaded example_scope) [])) \<noteq> JStr ''BLOCKED'')"
proof -
  have en: "ALLOW_MANUAL_UNBLOCK example_config"
    by (simp add: example_config_def)
  have no: "console (example_env ''no'') = Inr ''no'' \<and> strip ''no'' \<noteq> ''I_ACCEPT_RISK''"
    by (simp add: example_env_def strip_def is_space_def)
  have yes: "console (example_env padded_answer) = Inr padded_answer
      \<and> strip padded_answer = ''I_ACCEPT_RISK''"
    by (simp add: example_env_def padded_answer_def strip_def is_space_def)
  note g1 = scope_check_gate [OF example_mkdir, where answer1 = "''no''" and cfg = example_config
      and target = "''dev.example.com''" and sf = "Loaded example_scope" and au = "[]"
      and rx = literal_search and fmt = render_text and mf = example_manifest
      and mode = "''safe-scan''" and allow_unblock = True, THEN conjunct1, THEN mp,
      OF example_scope_dev]
  note g2 = scope_check_gate [OF example_mkdir, where answer1 = "''no''" and cfg = example_config
      and target = "''other.org''" and sf = NoScopeFile and au = "[]"
      and rx = literal_search and fmt = render_text and mf = example_manifest
      and mode = "''safe-scan''" and allow_unblock = False, THEN conjunct2, THEN conjunct1, THEN mp]
  note g3 = scope_check_gate [OF example_mkdir, where answer1 = "''no''" and cfg = example_config
      and target = "''other.org''" and sf = NoScopeFile and au = "[]"
      and rx = literal_search and fmt = render_text and mf = example_manifest
      and mode = "''safe-scan''" and allow_unblock = True and response = "''no''",
      THEN conjunct2, THEN conjunct2, THEN conjunct1, THEN mp]
  note g4 = scope_check_gate [OF example_mkdir, where answer1 = padded_answer
      and cfg = example_config
      and target = "''other.org''" and sf = NoScopeFile and au = "[]"
      and rx = literal_search and fmt = render_text and mf = example_manifest
      and mode = "''safe-scan''" and allow_unblock = True and response = padded_answer,
      THEN conjunct2, THEN conjunct2, THEN conjunct2, THEN conjunct1, THEN mp]
  note g5 = scope_check_gate [OF example_mkdir, where answer1 = "''no''" and cfg = example_config
      and target = "''api.example.com''" and sf = "Loaded example_scope" and au = "[]"
      and rx = literal_search and fmt = render_text and mf = example_manifest
      and mode = "''safe-scan''" and allow_unblock = False,
      THEN conjunct2, THEN conjunct2, THEN conjunct2, THEN conjunct2, THEN conjunct1, THEN mp]
  note g6 = scope_check_gate [OF example_mkdir, where answer1 = "''no''" and cfg = example_config
      and target = "''api.example.com''" and sf = "Loaded example_scope" and au = "[]"
      and rx = literal_search and fmt = render_text and mf = example_manifest
      and mode = "''safe-scan''" and allow_unblock = False,
      THEN conjunct2, THEN conjunct2, THEN conjunct2, THEN conjunct2, THEN conjunct2, THEN mp]
  have w1: "\<exists>rid au1. run_pipeline literal_search render_text example_config example_manifest
       (example_env ''no'') ''dev.example.com'' ''safe-scan'' (Loaded example_scope) True []
     = Inr (failed ''blocked_by_policy'' rid, [], au1)"
    using g1 by blast
  have w2: "\<exists>rid au1. run_pipeline literal_search render_text example_config example_manifest
       (example_env ''no'') ''other.org'' ''safe-scan'' NoScopeFile False []
     = Inr (failed ''unknown_scope'' rid, [], au1)"
    using g2 example_no_scope_file by blast
  have w3: "\<exists>rid au1. run_pipeline literal_search render_text example_config example_manifest
       (example_env ''no'') ''other.org'' ''safe-scan'' NoScopeFile True []
     = Inr (failed ''override_declined'' rid, [], au1)"
    using g3 example_no_scope_file en no by blast
  have w4: "\<exists>res st au'. run_pipeline literal_search render_text example_config example_manifest
       (example_env padded_answer) ''other.org'' ''safe-scan'' NoScopeFile True []
     = Inr (res, Recon # st, au')"
    using g4 example_no_scope_file en yes by blast
  have a5: "decision (fst (is_target_in_scope example_config (scope_advisory (example_env ''no''))
                          ''api.example.com'' (Loaded example_scope) [])) \<noteq> JStr ''BLOCKED''
      \<and> decision (fst (is_target_in_scope example_config (scope_advisory (example_env ''no''))
                          ''api.example.com'' (Loaded example_scope) [])) \<noteq> JStr ''UNKNOWN''"
    by (simp add: example_scope_api)
  obtain res st au' where r5: "run_pipeline literal_search render_text example_config
       example_manifest (example_env ''no'') ''api.example.com'' ''safe-scan''
       (Loaded example_scope) False [] = Inr (res, Recon # st, au')"
    using g5 [OF a5] by blast
  have h6: "run_pipeline literal_search render_text example_config
       example_manifest (example_env ''no'') ''api.example.com'' ''safe-scan''
       (Loaded example_scope) False [] = Inr (res, Recon # st, au') \<and> Recon # st \<noteq> []"
    using r5 by simp
  have w5: "\<exists>res st au'. run_pipeline literal_search render_text example_config example_manifest
       (example_env ''no'') ''api.example.com'' ''safe-scan'' (Loaded example_scope) False []
     = Inr (res, st, au') \<and> st \<noteq> []
       \<and> decision (fst (is_target_in_scope example_config (scope_advisory (example_env ''no''))
                          ''api.example.com'' (Loaded example_scope) [])) \<noteq> JStr ''BLOCKED''"
    using g6 [OF h6] h6 by blast
  from w1 w2 w3 w4 w5 show ?thesis by blast
qed

end
